theory Spec2Isabelle
  imports Main
begin

section \<open>The model list offered to the user (lib/ai/models.ts)\<close>

definition DEFAULT_CHAT_MODEL :: string where
  "DEFAULT_CHAT_MODEL = ''chat-model''"

text \<open>
  The interface \<^verbatim>\<open>ChatModel\<close>. Its fields \<^verbatim>\<open>id\<close> and \<^verbatim>\<open>name\<close> carry a prime here:
  \<open>id\<close> is the identity function of HOL, and \<open>name\<close> is a field of the provider
  settings below.
\<close>

record ChatModel =
  id' :: string
  name' :: string
  description :: string

definition chatModels :: "ChatModel list" where
  "chatModels =
     [ \<lparr> id' = ''chat-model'',
         name' = ''Chat model'',
         description = ''Primary model for all-purpose chat via custom agent backend'' \<rparr>,
       \<lparr> id' = ''chat-model-reasoning'',
         name' = ''Reasoning model'',
         description = ''Uses advanced reasoning via custom agent backend'' \<rparr> ]"


section \<open>The runtime: \<^verbatim>\<open>process.env\<close>, truthiness, \<^verbatim>\<open>JSON.parse\<close>\<close>

text \<open>
  \<^verbatim>\<open>process.env\<close> maps variable names to strings; a variable that is not set reads as
  \<^verbatim>\<open>undefined\<close>, here \<open>None\<close>. The process state also keeps the list of the variables
  read so far, in order: the module never looks at it, it is there so that theorems can
  say which variables an evaluation has read.
\<close>

record process =
  env :: "string \<rightharpoonup> string"
  reads :: "string list"

definition getenv :: "string \<Rightarrow> process \<Rightarrow> string option \<times> process" where
  \<comment> \<open>the expression \<^verbatim>\<open>process.env.K\<close>\<close>
  "getenv k p = (env p k, p\<lparr>reads := reads p @ [k]\<rparr>)"

definition truthy :: "string option \<Rightarrow> bool" where
  \<comment> \<open>of a value that is a string or \<^verbatim>\<open>undefined\<close>, only a non-empty string is truthy\<close>
  "truthy v = (case v of None \<Rightarrow> False | Some s \<Rightarrow> s \<noteq> [])"

definition or_default :: "string option \<Rightarrow> string \<Rightarrow> string" where
  \<comment> \<open>the expression \<^verbatim>\<open>v || d\<close>: the left operand when it is truthy, else the right one\<close>
  "or_default v d = (case v of None \<Rightarrow> d | Some s \<Rightarrow> if s \<noteq> [] then s else d)"

text \<open>
  The values \<^verbatim>\<open>JSON.parse\<close> returns. A number is kept as its decimal rendering; the
  module never inspects the parsed value. \<^verbatim>\<open>JSON.parse\<close> itself belongs to the
  runtime, not to this repository: it is a parameter \<open>JSON_parse\<close> of the module's
  evaluation, \<open>None\<close> where the runtime throws \<^verbatim>\<open>SyntaxError\<close>.
\<close>

datatype json =
    JNull
  | JBool bool
  | JNumber string
  | JString string
  | JArray "json list"
  | JObject "(string \<times> json) list"

datatype error = SyntaxError


section \<open>The SDK's constructors\<close>

text \<open>
  \<^verbatim>\<open>createOpenAICompatible\<close>, calling the provider it returns on a model identifier,
  \<^verbatim>\<open>wrapLanguageModel\<close>, \<^verbatim>\<open>extractReasoningMiddleware\<close> and \<^verbatim>\<open>customProvider\<close>
  are functions of the external SDK that build objects from their arguments. Each is
  a constructor here: the object is known by what it was built from.
\<close>

record OpenAICompatibleProviderSettings =
  name :: string
  apiKey :: string
  baseURL :: string
  headers :: json

datatype OpenAICompatibleProvider =
  createOpenAICompatible (settings: OpenAICompatibleProviderSettings)

datatype LanguageModelMiddleware =
  extractReasoningMiddleware (tagName: string)

text \<open>
  A language model is an object imported from \<^verbatim>\<open>./models.test\<close> (of a type \<open>'m\<close>
  that this module does not look into), the result \<^verbatim>\<open>provider(modelId)\<close> of calling
  an OpenAI-compatible provider, or a model wrapped with a middleware.
\<close>

datatype 'm LanguageModel =
    Imported 'm
  | call OpenAICompatibleProvider string
  | wrapLanguageModel "'m LanguageModel" LanguageModelMiddleware

datatype ImageModel =
  imageModel OpenAICompatibleProvider string

text \<open>
  The argument of \<^verbatim>\<open>customProvider\<close>, which is also what the provider it returns
  knows: an object literal is the list of its properties in source order, and a
  property that is not given is \<open>None\<close>.
\<close>

record 'm Provider =
  languageModels :: "(string \<times> 'm LanguageModel) list"
  imageModels :: "(string \<times> ImageModel) list option"

text \<open>The four objects the module imports from \<^verbatim>\<open>./models.test\<close>.\<close>

record 'm models_test =
  chatModel :: 'm
  reasoningModel :: 'm
  titleModel :: 'm
  artifactModel :: 'm


section \<open>The provider module\<close>

text \<open>
  The module that the setup guide calls \<^verbatim>\<open>lib/ai/providers.ts\<close> is two top-level
  constants, evaluated once, in order, when the module is loaded. Object literals evaluate their properties in source order, so the reads of
  \<^verbatim>\<open>process.env\<close> happen in the order written. \<^verbatim>\<open>isTestEnvironment\<close> is imported
  from \<^verbatim>\<open>../constants\<close> and is a parameter, like the imports of \<^verbatim>\<open>./models.test\<close>.
\<close>

definition JSON_parse_of :: "(string \<Rightarrow> json option) \<Rightarrow> string option \<Rightarrow> error + json" where
  \<comment> \<open>the call \<^verbatim>\<open>JSON.parse(v)\<close>, with nothing around it to catch what it throws;
     \<^verbatim>\<open>undefined\<close> is turned into the text \<^verbatim>\<open>undefined\<close>, which is not JSON\<close>
  "JSON_parse_of JSON_parse v =
     (case v of
        None \<Rightarrow> Inl SyntaxError
      | Some s \<Rightarrow> (case JSON_parse s of None \<Rightarrow> Inl SyntaxError | Some j \<Rightarrow> Inr j))"

definition eval_customAgentProvider ::
  "(string \<Rightarrow> json option) \<Rightarrow> process \<Rightarrow> (error + OpenAICompatibleProvider) \<times> process" where
  "eval_customAgentProvider JSON_parse p0 =
     (let (n, p1) = getenv ''CUSTOM_AGENT_PROVIDER_NAME'' p0;
          (k, p2) = getenv ''CUSTOM_AGENT_API_KEY'' p1;
          (u, p3) = getenv ''CUSTOM_AGENT_BASE_URL'' p2;
          (c, p4) = getenv ''CUSTOM_AGENT_HEADERS'' p3;
          (h, p6) = (if truthy c
                     then (let (v, p5) = getenv ''CUSTOM_AGENT_HEADERS'' p4
                           in (JSON_parse_of JSON_parse v, p5))
                     else (Inr (JObject []), p4))
      in case h of
           Inl e \<Rightarrow> (Inl e, p6)
         | Inr j \<Rightarrow>
             (Inr (createOpenAICompatible
                \<lparr> name = or_default n ''custom-agent'',
                  apiKey = or_default k ''dummy-key'',
                  baseURL = or_default u ''http://localhost:8000/v1'',
                  headers = j \<rparr>), p6))"

definition eval_myProvider ::
  "bool \<Rightarrow> 'm models_test \<Rightarrow> OpenAICompatibleProvider \<Rightarrow> process \<Rightarrow> 'm Provider \<times> process" where
  "eval_myProvider isTestEnvironment t customAgentProvider p0 =
     (if isTestEnvironment then
        (\<lparr> languageModels =
             [ (''chat-model'', Imported (chatModel t)),
               (''chat-model-reasoning'', Imported (reasoningModel t)),
               (''title-model'', Imported (titleModel t)),
               (''artifact-model'', Imported (artifactModel t)) ],
           imageModels = None \<rparr>, p0)
      else
        (let (c, p1) = getenv ''CUSTOM_AGENT_CHAT_MODEL'' p0;
             (r, p2) = getenv ''CUSTOM_AGENT_REASONING_MODEL'' p1;
             (i, p3) = getenv ''CUSTOM_AGENT_TITLE_MODEL'' p2;
             (a, p4) = getenv ''CUSTOM_AGENT_ARTIFACT_MODEL'' p3
         in (\<lparr> languageModels =
                [ (''chat-model'', call customAgentProvider (or_default c ''gpt-4o-mini'')),
                  (''chat-model-reasoning'',
                     wrapLanguageModel
                       (call customAgentProvider (or_default r ''gpt-4o''))
                       (extractReasoningMiddleware ''think'')),
                  (''title-model'', call customAgentProvider (or_default i ''gpt-3.5-turbo'')),
                  (''artifact-model'', call customAgentProvider (or_default a ''gpt-4o'')) ],
              imageModels = None \<rparr>, p4)))"

text \<open>The module's two constants, once it has loaded.\<close>

record 'm providers =
  customAgentProvider :: OpenAICompatibleProvider
  myProvider :: "'m Provider"

definition load ::
  "(string \<Rightarrow> json option) \<Rightarrow> bool \<Rightarrow> 'm models_test \<Rightarrow> process
     \<Rightarrow> (error + 'm providers) \<times> process" where
  "load JSON_parse isTestEnvironment t p0 =
     (case eval_customAgentProvider JSON_parse p0 of
        (Inl e, p1) \<Rightarrow> (Inl e, p1)
      | (Inr cap, p1) \<Rightarrow>
          (let (mp, p2) = eval_myProvider isTestEnvironment t cap p1
           in (Inr \<lparr> customAgentProvider = cap, myProvider = mp \<rparr>, p2)))"






section \<open>Notions the properties are stated with\<close>

text \<open>The eight variables the module reads, as section 6 of the specification lists them.\<close>

definition CUSTOM_AGENT_variables :: "string list" where
  "CUSTOM_AGENT_variables =
     [ ''CUSTOM_AGENT_PROVIDER_NAME'', ''CUSTOM_AGENT_API_KEY'', ''CUSTOM_AGENT_BASE_URL'',
       ''CUSTOM_AGENT_HEADERS'', ''CUSTOM_AGENT_CHAT_MODEL'', ''CUSTOM_AGENT_REASONING_MODEL'',
       ''CUSTOM_AGENT_TITLE_MODEL'', ''CUSTOM_AGENT_ARTIFACT_MODEL'' ]"

text \<open>
  What a language model was built from: whether it comes from a given provider, the
  backend model identifier it was called with, and the middleware around it,
  outermost first.
\<close>

fun obtained_from :: "OpenAICompatibleProvider \<Rightarrow> 'm LanguageModel \<Rightarrow> bool" where
  "obtained_from q (Imported x) = False"
| "obtained_from q (call q' i) = (q' = q)"
| "obtained_from q (wrapLanguageModel m w) = obtained_from q m"

fun modelId :: "'m LanguageModel \<Rightarrow> string option" where
  "modelId (Imported x) = None"
| "modelId (call q i) = Some i"
| "modelId (wrapLanguageModel m w) = modelId m"

fun middleware :: "'m LanguageModel \<Rightarrow> LanguageModelMiddleware list" where
  "middleware (Imported x) = []"
| "middleware (call q i) = []"
| "middleware (wrapLanguageModel m w) = w # middleware m"

definition backend_model :: "'m providers \<Rightarrow> string \<Rightarrow> string option" where
  \<comment> \<open>the backend model identifier behind a key of \<open>myProvider\<close>\<close>
  "backend_model m k =
     (case map_of (languageModels (myProvider m)) k of None \<Rightarrow> None | Some v \<Rightarrow> modelId v)"

text \<open>
  The rule for a backend model identifier in the specification's words: the value of
  the variable when it is set, and otherwise the default.
\<close>

definition spec_backend_model :: "(string \<rightharpoonup> string) \<Rightarrow> string \<Rightarrow> string \<Rightarrow> string" where
  "spec_backend_model e var d = (case e var of Some v \<Rightarrow> v | None \<Rightarrow> d)"

text \<open>
  The values of the two constants and the reads of the second one, without the
  threading of the process state; the lemmas below relate them to the evaluation.
\<close>

definition settings_from :: "(string \<rightharpoonup> string) \<Rightarrow> json \<Rightarrow> OpenAICompatibleProviderSettings" where
  "settings_from e j =
     \<lparr> name = or_default (e ''CUSTOM_AGENT_PROVIDER_NAME'') ''custom-agent'',
       apiKey = or_default (e ''CUSTOM_AGENT_API_KEY'') ''dummy-key'',
       baseURL = or_default (e ''CUSTOM_AGENT_BASE_URL'') ''http://localhost:8000/v1'',
       headers = j \<rparr>"

definition test_models :: "'m models_test \<Rightarrow> 'm Provider" where
  "test_models t =
     \<lparr> languageModels =
          [ (''chat-model'', Imported (chatModel t)),
            (''chat-model-reasoning'', Imported (reasoningModel t)),
            (''title-model'', Imported (titleModel t)),
            (''artifact-model'', Imported (artifactModel t)) ],
        imageModels = None \<rparr>"

definition production_models :: "(string \<rightharpoonup> string) \<Rightarrow> OpenAICompatibleProvider \<Rightarrow> 'm Provider" where
  "production_models e q =
     \<lparr> languageModels =
          [ (''chat-model'', call q (or_default (e ''CUSTOM_AGENT_CHAT_MODEL'') ''gpt-4o-mini'')),
            (''chat-model-reasoning'',
               wrapLanguageModel
                 (call q (or_default (e ''CUSTOM_AGENT_REASONING_MODEL'') ''gpt-4o''))
                 (extractReasoningMiddleware ''think'')),
            (''title-model'', call q (or_default (e ''CUSTOM_AGENT_TITLE_MODEL'') ''gpt-3.5-turbo'')),
            (''artifact-model'', call q (or_default (e ''CUSTOM_AGENT_ARTIFACT_MODEL'') ''gpt-4o'')) ],
        imageModels = None \<rparr>"

definition model_reads :: "bool \<Rightarrow> string list" where
  "model_reads b =
     (if b then []
      else [''CUSTOM_AGENT_CHAT_MODEL'', ''CUSTOM_AGENT_REASONING_MODEL'',
            ''CUSTOM_AGENT_TITLE_MODEL'', ''CUSTOM_AGENT_ARTIFACT_MODEL''])"


section \<open>Example inputs\<close>

text \<open>
  Four stand-ins for the imported test doubles, and a parser table that agrees with
  \<^verbatim>\<open>JSON.parse\<close> on the texts the examples use: the text of the empty object parses
  to it, and the other texts are not JSON.
\<close>

abbreviation sample_models :: "string models_test" where
  "sample_models \<equiv>
     \<lparr> chatModel = ''mock-chat'', reasoningModel = ''mock-reasoning'',
       titleModel = ''mock-title'', artifactModel = ''mock-artifact'' \<rparr>"

abbreviation sample_JSON_parse :: "string \<Rightarrow> json option" where
  "sample_JSON_parse \<equiv> [''{}'' \<mapsto> JObject []]"


section \<open>The evaluation in closed form\<close>

lemma eval_myProvider_eq:
  "eval_myProvider b t q p =
     (if b then test_models t else production_models (env p) q,
      p\<lparr>reads := reads p @ model_reads b\<rparr>)"
  by (cases b)
     (simp_all add: eval_myProvider_def getenv_def test_models_def production_models_def
        model_reads_def)

lemma eval_customAgentProvider_falsy:
  assumes "env p ''CUSTOM_AGENT_HEADERS'' = None \<or> env p ''CUSTOM_AGENT_HEADERS'' = Some []"
  shows "eval_customAgentProvider jp p =
     (Inr (createOpenAICompatible (settings_from (env p) (JObject []))),
      p\<lparr>reads := reads p @ [''CUSTOM_AGENT_PROVIDER_NAME'', ''CUSTOM_AGENT_API_KEY'',
                            ''CUSTOM_AGENT_BASE_URL'', ''CUSTOM_AGENT_HEADERS'']\<rparr>)"
  using assms
  by (auto simp add: eval_customAgentProvider_def getenv_def truthy_def settings_from_def)

lemma eval_customAgentProvider_truthy:
  assumes "env p ''CUSTOM_AGENT_HEADERS'' = Some s" and "s \<noteq> []"
  shows "eval_customAgentProvider jp p =
     ((case jp s of
         None \<Rightarrow> Inl SyntaxError
       | Some j \<Rightarrow> Inr (createOpenAICompatible (settings_from (env p) j))),
      p\<lparr>reads := reads p @ [''CUSTOM_AGENT_PROVIDER_NAME'', ''CUSTOM_AGENT_API_KEY'',
                            ''CUSTOM_AGENT_BASE_URL'', ''CUSTOM_AGENT_HEADERS'',
                            ''CUSTOM_AGENT_HEADERS'']\<rparr>)"
  using assms
  by (simp add: eval_customAgentProvider_def getenv_def truthy_def JSON_parse_of_def
      settings_from_def split: option.splits)

lemma load_falsy:
  assumes "env p ''CUSTOM_AGENT_HEADERS'' = None \<or> env p ''CUSTOM_AGENT_HEADERS'' = Some []"
  shows "load jp b t p =
     (Inr \<lparr> customAgentProvider = createOpenAICompatible (settings_from (env p) (JObject [])),
            myProvider =
              (if b then test_models t
               else production_models (env p)
                      (createOpenAICompatible (settings_from (env p) (JObject [])))) \<rparr>,
      p\<lparr>reads := reads p @ [''CUSTOM_AGENT_PROVIDER_NAME'', ''CUSTOM_AGENT_API_KEY'',
                            ''CUSTOM_AGENT_BASE_URL'', ''CUSTOM_AGENT_HEADERS'']
                         @ model_reads b\<rparr>)"
  by (simp add: load_def eval_customAgentProvider_falsy [OF assms] eval_myProvider_eq)

lemma load_invalid:
  assumes "env p ''CUSTOM_AGENT_HEADERS'' = Some s" and "s \<noteq> []" and "jp s = None"
  shows "load jp b t p =
     (Inl SyntaxError,
      p\<lparr>reads := reads p @ [''CUSTOM_AGENT_PROVIDER_NAME'', ''CUSTOM_AGENT_API_KEY'',
                            ''CUSTOM_AGENT_BASE_URL'', ''CUSTOM_AGENT_HEADERS'',
                            ''CUSTOM_AGENT_HEADERS'']\<rparr>)"
  by (simp add: load_def eval_customAgentProvider_truthy [OF assms(1,2)] assms(3))

lemma load_valid:
  assumes "env p ''CUSTOM_AGENT_HEADERS'' = Some s" and "s \<noteq> []" and "jp s = Some j"
  shows "load jp b t p =
     (Inr \<lparr> customAgentProvider = createOpenAICompatible (settings_from (env p) j),
            myProvider =
              (if b then test_models t
               else production_models (env p)
                      (createOpenAICompatible (settings_from (env p) j))) \<rparr>,
      p\<lparr>reads := reads p @ [''CUSTOM_AGENT_PROVIDER_NAME'', ''CUSTOM_AGENT_API_KEY'',
                            ''CUSTOM_AGENT_BASE_URL'', ''CUSTOM_AGENT_HEADERS'',
                            ''CUSTOM_AGENT_HEADERS'']
                         @ model_reads b\<rparr>)"
  by (simp add: load_def eval_customAgentProvider_truthy [OF assms(1,2)] assms(3)
      eval_myProvider_eq)

text \<open>The three ways the headers variable can stand to the parser.\<close>

lemma headers_cases [case_names falsy invalid valid]:
  fixes e :: "string \<rightharpoonup> string" and jp :: "string \<Rightarrow> json option"
  obtains "e ''CUSTOM_AGENT_HEADERS'' = None \<or> e ''CUSTOM_AGENT_HEADERS'' = Some []"
  | s where "e ''CUSTOM_AGENT_HEADERS'' = Some s" and "s \<noteq> []" and "jp s = None"
  | s j where "e ''CUSTOM_AGENT_HEADERS'' = Some s" and "s \<noteq> []" and "jp s = Some j"
proof (cases "e ''CUSTOM_AGENT_HEADERS''")
  case None
  then show ?thesis using that(1) by simp
next
  case (Some s)
  note set = this
  show ?thesis
  proof (cases "s = []")
    case True
    with set show ?thesis using that(1) by simp
  next
    case False
    show ?thesis
    proof (cases "jp s")
      case None
      with set False show ?thesis using that(2) by simp
    next
      case (Some j)
      with set False show ?thesis using that(3) by simp
    qed
  qed
qed

text \<open>Where the module loads, its constants are these.\<close>

lemma load_Inr:
  assumes "fst (load jp b t p) = Inr m"
  shows "\<exists>j. customAgentProvider m = createOpenAICompatible (settings_from (env p) j)
          \<and> myProvider m = (if b then test_models t
                            else production_models (env p) (customAgentProvider m))"
proof (cases rule: headers_cases [where e = "env p" and jp = jp])
  case falsy
  with assms show ?thesis by (auto simp add: load_falsy)
next
  case (invalid s)
  with assms show ?thesis by (simp add: load_invalid)
next
  case (valid s j)
  with assms show ?thesis by (auto simp add: load_valid)
qed

lemma load_myProvider:
  assumes "fst (load jp b t p) = Inr m"
  shows "myProvider m = (if b then test_models t
                         else production_models (env p) (customAgentProvider m))"
  using load_Inr [OF assms] by blast

text \<open>The result of loading depends on the process only through the eight variables.\<close>

lemma load_fst_agree:
  assumes "\<forall>k \<in> set CUSTOM_AGENT_variables. env p1 k = env p2 k"
  shows "fst (load jp b t p1) = fst (load jp b t p2)"
proof -
  have s: "settings_from (env p1) j = settings_from (env p2) j" for j
    using assms by (simp add: settings_from_def CUSTOM_AGENT_variables_def)
  have m: "(production_models (env p1) q :: 'a Provider) = production_models (env p2) q" for q
    using assms by (simp add: production_models_def CUSTOM_AGENT_variables_def)
  have h: "env p1 ''CUSTOM_AGENT_HEADERS'' = env p2 ''CUSTOM_AGENT_HEADERS''"
    using assms by (simp add: CUSTOM_AGENT_variables_def)
  show ?thesis
  proof (cases rule: headers_cases [where e = "env p1" and jp = jp])
    case falsy
    with h have "env p2 ''CUSTOM_AGENT_HEADERS'' = None \<or> env p2 ''CUSTOM_AGENT_HEADERS'' = Some []"
      by simp
    with falsy show ?thesis by (simp add: load_falsy s m)
  next
    case (invalid x)
    with h have "env p2 ''CUSTOM_AGENT_HEADERS'' = Some x" by simp
    with invalid show ?thesis by (simp add: load_invalid)
  next
    case (valid x j)
    with h have "env p2 ''CUSTOM_AGENT_HEADERS'' = Some x" by simp
    with valid show ?thesis by (simp add: load_valid s m)
  qed
qed







section \<open>The selection between the test doubles and the remote provider\<close>

text \<open>
  C1. Where the module loads, \<open>myProvider\<close> is one of two configurations, and
  \<open>isTestEnvironment\<close> alone selects which. When it holds, the language models are
  the four objects imported from \<^verbatim>\<open>./models.test\<close>, each under its key. Otherwise
  they are four models obtained from \<open>customAgentProvider\<close>: under each key the
  provider called on the model identifier of that key, the reasoning model wrapped.
  In both cases \<open>customAgentProvider\<close> is what \<^verbatim>\<open>createOpenAICompatible\<close> built from
  the name, the API key, the base URL and the headers of the environment.
\<close>

theorem myProvider_selected_by_isTestEnvironment:
  assumes "fst (load JSON_parse isTestEnvironment t p) = Inr m"
  shows "(if isTestEnvironment
          then languageModels (myProvider m) =
                 [ (''chat-model'', Imported (chatModel t)),
                   (''chat-model-reasoning'', Imported (reasoningModel t)),
                   (''title-model'', Imported (titleModel t)),
                   (''artifact-model'', Imported (artifactModel t)) ]
          else languageModels (myProvider m) =
                 [ (''chat-model'',
                      call (customAgentProvider m)
                        (or_default (env p ''CUSTOM_AGENT_CHAT_MODEL'') ''gpt-4o-mini'')),
                   (''chat-model-reasoning'',
                      wrapLanguageModel
                        (call (customAgentProvider m)
                           (or_default (env p ''CUSTOM_AGENT_REASONING_MODEL'') ''gpt-4o''))
                        (extractReasoningMiddleware ''think'')),
                   (''title-model'',
                      call (customAgentProvider m)
                        (or_default (env p ''CUSTOM_AGENT_TITLE_MODEL'') ''gpt-3.5-turbo'')),
                   (''artifact-model'',
                      call (customAgentProvider m)
                        (or_default (env p ''CUSTOM_AGENT_ARTIFACT_MODEL'') ''gpt-4o'')) ]
               \<and> list_all (\<lambda>(k, v). obtained_from (customAgentProvider m) v)
                    (languageModels (myProvider m)))
         \<and> (\<exists>j. customAgentProvider m =
                   createOpenAICompatible
                     \<lparr> name = or_default (env p ''CUSTOM_AGENT_PROVIDER_NAME'') ''custom-agent'',
                       apiKey = or_default (env p ''CUSTOM_AGENT_API_KEY'') ''dummy-key'',
                       baseURL = or_default (env p ''CUSTOM_AGENT_BASE_URL'')
                                   ''http://localhost:8000/v1'',
                       headers = j \<rparr>)"
proof -
  from load_Inr [OF assms] obtain j
    where c: "customAgentProvider m = createOpenAICompatible (settings_from (env p) j)"
    by blast
  then have built: "\<exists>j. customAgentProvider m =
                   createOpenAICompatible
                     \<lparr> name = or_default (env p ''CUSTOM_AGENT_PROVIDER_NAME'') ''custom-agent'',
                       apiKey = or_default (env p ''CUSTOM_AGENT_API_KEY'') ''dummy-key'',
                       baseURL = or_default (env p ''CUSTOM_AGENT_BASE_URL'')
                                   ''http://localhost:8000/v1'',
                       headers = j \<rparr>"
    by (auto simp add: settings_from_def)
  show ?thesis
  proof (cases isTestEnvironment)
    case True
    with load_myProvider [OF assms] built show ?thesis by (simp add: test_models_def)
  next
    case False
    with load_myProvider [OF assms] built show ?thesis by (simp add: production_models_def)
  qed
qed

text \<open>
  The theorem at work: with the headers set to the empty object and one model variable
  set, the test environment gets the four stand-ins, and the production environment
  gets four models of the remote provider, the chat model with the identifier set.
\<close>

theorem myProvider_selected_by_isTestEnvironment_witness:
  "(case fst (load sample_JSON_parse True sample_models
                \<lparr>env = [''CUSTOM_AGENT_HEADERS'' \<mapsto> ''{}'', ''CUSTOM_AGENT_CHAT_MODEL'' \<mapsto> ''llama-3''],
                  reads = []\<rparr>) of
      Inl e \<Rightarrow> False
    | Inr m \<Rightarrow>
        languageModels (myProvider m) =
          [ (''chat-model'', Imported ''mock-chat''),
            (''chat-model-reasoning'', Imported ''mock-reasoning''),
            (''title-model'', Imported ''mock-title''),
            (''artifact-model'', Imported ''mock-artifact'') ])
   \<and> (case fst (load sample_JSON_parse False sample_models
                \<lparr>env = [''CUSTOM_AGENT_HEADERS'' \<mapsto> ''{}'', ''CUSTOM_AGENT_CHAT_MODEL'' \<mapsto> ''llama-3''],
                  reads = []\<rparr>) of
      Inl e \<Rightarrow> False
    | Inr m \<Rightarrow>
        languageModels (myProvider m) =
          [ (''chat-model'', call (customAgentProvider m) ''llama-3''),
            (''chat-model-reasoning'',
               wrapLanguageModel (call (customAgentProvider m) ''gpt-4o'')
                 (extractReasoningMiddleware ''think'')),
            (''title-model'', call (customAgentProvider m) ''gpt-3.5-turbo''),
            (''artifact-model'', call (customAgentProvider m) ''gpt-4o'') ]
        \<and> list_all (\<lambda>(k, v). obtained_from (customAgentProvider m) v)
             (languageModels (myProvider m))
        \<and> name (settings (customAgentProvider m)) = ''custom-agent''
        \<and> apiKey (settings (customAgentProvider m)) = ''dummy-key''
        \<and> baseURL (settings (customAgentProvider m)) = ''http://localhost:8000/v1'')"
proof -
  let ?p = "\<lparr>env = [''CUSTOM_AGENT_HEADERS'' \<mapsto> ''{}'', ''CUSTOM_AGENT_CHAT_MODEL'' \<mapsto> ''llama-3''],
             reads = []\<rparr>"
  obtain m1 where l1: "fst (load sample_JSON_parse True sample_models ?p) = Inr m1"
    by (simp add: load_valid)
  obtain m2 where l2: "fst (load sample_JSON_parse False sample_models ?p) = Inr m2"
    by (simp add: load_valid)
  from myProvider_selected_by_isTestEnvironment [OF l1] have t: "languageModels (myProvider m1) =
          [ (''chat-model'', Imported ''mock-chat''),
            (''chat-model-reasoning'', Imported ''mock-reasoning''),
            (''title-model'', Imported ''mock-title''),
            (''artifact-model'', Imported ''mock-artifact'') ]"
    by simp
  from myProvider_selected_by_isTestEnvironment [OF l2] have r: "languageModels (myProvider m2) =
          [ (''chat-model'', call (customAgentProvider m2) ''llama-3''),
            (''chat-model-reasoning'',
               wrapLanguageModel (call (customAgentProvider m2) ''gpt-4o'')
                 (extractReasoningMiddleware ''think'')),
            (''title-model'', call (customAgentProvider m2) ''gpt-3.5-turbo''),
            (''artifact-model'', call (customAgentProvider m2) ''gpt-4o'') ]"
    and s: "name (settings (customAgentProvider m2)) = ''custom-agent''
            \<and> apiKey (settings (customAgentProvider m2)) = ''dummy-key''
            \<and> baseURL (settings (customAgentProvider m2)) = ''http://localhost:8000/v1''"
    by (auto simp add: or_default_def)
  from t r s show ?thesis by (simp add: l1 l2)
qed

text \<open>
  C2. In both branches the language models of \<open>myProvider\<close> have exactly the four
  keys "chat-model", "chat-model-reasoning", "title-model" and "artifact-model", once
  each, and no image models are given.
\<close>

theorem languageModels_keys:
  assumes "fst (load JSON_parse isTestEnvironment t p) = Inr m"
  shows "map fst (languageModels (myProvider m)) =
           [''chat-model'', ''chat-model-reasoning'', ''title-model'', ''artifact-model'']
         \<and> imageModels (myProvider m) = None"
proof (cases isTestEnvironment)
  case True
  with load_myProvider [OF assms] show ?thesis by (simp add: test_models_def)
next
  case False
  with load_myProvider [OF assms] show ?thesis by (simp add: production_models_def)
qed

theorem languageModels_keys_witness:
  "(case fst (load sample_JSON_parse True sample_models \<lparr>env = Map.empty, reads = []\<rparr>) of
      Inl e \<Rightarrow> False
    | Inr m \<Rightarrow>
        map fst (languageModels (myProvider m)) =
          [''chat-model'', ''chat-model-reasoning'', ''title-model'', ''artifact-model'']
        \<and> imageModels (myProvider m) = None)
   \<and> (case fst (load sample_JSON_parse False sample_models \<lparr>env = Map.empty, reads = []\<rparr>) of
      Inl e \<Rightarrow> False
    | Inr m \<Rightarrow>
        map fst (languageModels (myProvider m)) =
          [''chat-model'', ''chat-model-reasoning'', ''title-model'', ''artifact-model'']
        \<and> imageModels (myProvider m) = None)"
proof -
  let ?p = "\<lparr>env = Map.empty, reads = []\<rparr>"
  obtain m1 where l1: "fst (load sample_JSON_parse True sample_models ?p) = Inr m1"
    by (simp add: load_falsy)
  obtain m2 where l2: "fst (load sample_JSON_parse False sample_models ?p) = Inr m2"
    by (simp add: load_falsy)
  from languageModels_keys [OF l1] languageModels_keys [OF l2]
  show ?thesis by (simp add: l1 l2)
qed


section \<open>The production branch\<close>

text \<open>
  C3, as the specification states it, fails where a model variable is set to the empty
  string: the variable is set, its value is the empty string, and the backend model
  identifier is the default, since \<^verbatim>\<open>||\<close> takes an empty string for falsy.
\<close>

theorem backend_model_empty_variable_counterexample:
  "case fst (load sample_JSON_parse False sample_models
               \<lparr>env = [''CUSTOM_AGENT_CHAT_MODEL'' \<mapsto> ''''], reads = []\<rparr>) of
     Inl e \<Rightarrow> False
   | Inr m \<Rightarrow>
       backend_model m ''chat-model'' = Some ''gpt-4o-mini''
       \<and> backend_model m ''chat-model'' \<noteq>
           Some (spec_backend_model [''CUSTOM_AGENT_CHAT_MODEL'' \<mapsto> '''']
                   ''CUSTOM_AGENT_CHAT_MODEL'' ''gpt-4o-mini'')"
  by (simp add: load_falsy production_models_def backend_model_def spec_backend_model_def
      or_default_def)

text \<open>
  C3, amended. In the production branch the backend model identifier of each key is the
  value of its variable when that is set to a non-empty string, and the default when
  the variable is not set or is empty: "chat-model" uses CUSTOM_AGENT_CHAT_MODEL or
  gpt-4o-mini, "chat-model-reasoning" uses CUSTOM_AGENT_REASONING_MODEL or gpt-4o,
  "title-model" uses CUSTOM_AGENT_TITLE_MODEL or gpt-3.5-turbo, and "artifact-model"
  uses CUSTOM_AGENT_ARTIFACT_MODEL or gpt-4o.
\<close>

theorem backend_model_from_environment:
  assumes "fst (load JSON_parse False t p) = Inr m"
  shows "backend_model m ''chat-model'' =
           Some (case env p ''CUSTOM_AGENT_CHAT_MODEL'' of
                   None \<Rightarrow> ''gpt-4o-mini''
                 | Some v \<Rightarrow> if v \<noteq> [] then v else ''gpt-4o-mini'')
       \<and> backend_model m ''chat-model-reasoning'' =
           Some (case env p ''CUSTOM_AGENT_REASONING_MODEL'' of
                   None \<Rightarrow> ''gpt-4o''
                 | Some v \<Rightarrow> if v \<noteq> [] then v else ''gpt-4o'')
       \<and> backend_model m ''title-model'' =
           Some (case env p ''CUSTOM_AGENT_TITLE_MODEL'' of
                   None \<Rightarrow> ''gpt-3.5-turbo''
                 | Some v \<Rightarrow> if v \<noteq> [] then v else ''gpt-3.5-turbo'')
       \<and> backend_model m ''artifact-model'' =
           Some (case env p ''CUSTOM_AGENT_ARTIFACT_MODEL'' of
                   None \<Rightarrow> ''gpt-4o''
                 | Some v \<Rightarrow> if v \<noteq> [] then v else ''gpt-4o'')"
proof -
  from load_myProvider [OF assms]
  have mp: "myProvider m = production_models (env p) (customAgentProvider m)"
    by simp
  show ?thesis
    by (simp add: backend_model_def mp production_models_def or_default_def)
qed

theorem backend_model_from_environment_witness:
  "case fst (load sample_JSON_parse False sample_models
               \<lparr>env = [''CUSTOM_AGENT_CHAT_MODEL'' \<mapsto> ''llama-3'', ''CUSTOM_AGENT_TITLE_MODEL'' \<mapsto> ''''],
                 reads = []\<rparr>) of
     Inl e \<Rightarrow> False
   | Inr m \<Rightarrow>
       backend_model m ''chat-model'' = Some ''llama-3''
       \<and> backend_model m ''chat-model-reasoning'' = Some ''gpt-4o''
       \<and> backend_model m ''title-model'' = Some ''gpt-3.5-turbo''
       \<and> backend_model m ''artifact-model'' = Some ''gpt-4o''"
proof -
  let ?p = "\<lparr>env = [''CUSTOM_AGENT_CHAT_MODEL'' \<mapsto> ''llama-3'', ''CUSTOM_AGENT_TITLE_MODEL'' \<mapsto> ''''],
             reads = []\<rparr>"
  obtain m where l: "fst (load sample_JSON_parse False sample_models ?p) = Inr m"
    by (simp add: load_falsy)
  from backend_model_from_environment [OF l]
  show ?thesis by (simp add: l)
qed

text \<open>
  C4. In the production branch exactly one of the four language models carries
  middleware: "chat-model-reasoning" is a model of the remote provider wrapped by
  \<^verbatim>\<open>wrapLanguageModel\<close> with \<^verbatim>\<open>extractReasoningMiddleware\<close> of tag name think, and
  "chat-model", "title-model" and "artifact-model" are models of the remote provider
  as it returns them.
\<close>

theorem reasoning_model_alone_has_middleware:
  assumes "fst (load JSON_parse False t p) = Inr m"
  shows "map (\<lambda>(k, v). (k, middleware v)) (languageModels (myProvider m)) =
           [ (''chat-model'', []),
             (''chat-model-reasoning'', [extractReasoningMiddleware ''think'']),
             (''title-model'', []),
             (''artifact-model'', []) ]
       \<and> (\<exists>i. map_of (languageModels (myProvider m)) ''chat-model-reasoning'' =
                Some (wrapLanguageModel (call (customAgentProvider m) i)
                        (extractReasoningMiddleware ''think'')))
       \<and> (\<forall>k \<in> {''chat-model'', ''title-model'', ''artifact-model''}.
            \<exists>i. map_of (languageModels (myProvider m)) k = Some (call (customAgentProvider m) i))"
proof -
  from load_myProvider [OF assms]
  have mp: "myProvider m = production_models (env p) (customAgentProvider m)"
    by simp
  show ?thesis
    by (simp add: mp production_models_def)
qed

theorem reasoning_model_alone_has_middleware_witness:
  "case fst (load sample_JSON_parse False sample_models
               \<lparr>env = [''CUSTOM_AGENT_REASONING_MODEL'' \<mapsto> ''deepseek-r1''], reads = []\<rparr>) of
     Inl e \<Rightarrow> False
   | Inr m \<Rightarrow>
       map (\<lambda>(k, v). (k, middleware v)) (languageModels (myProvider m)) =
         [ (''chat-model'', []),
           (''chat-model-reasoning'', [extractReasoningMiddleware ''think'']),
           (''title-model'', []),
           (''artifact-model'', []) ]
       \<and> map_of (languageModels (myProvider m)) ''chat-model-reasoning'' =
           Some (wrapLanguageModel (call (customAgentProvider m) ''deepseek-r1'')
                   (extractReasoningMiddleware ''think''))
       \<and> map_of (languageModels (myProvider m)) ''title-model'' =
           Some (call (customAgentProvider m) ''gpt-3.5-turbo'')"
proof -
  let ?p = "\<lparr>env = [''CUSTOM_AGENT_REASONING_MODEL'' \<mapsto> ''deepseek-r1''], reads = []\<rparr>"
  obtain m where l: "fst (load sample_JSON_parse False sample_models ?p) = Inr m"
    by (simp add: load_falsy)
  have mp: "myProvider m = production_models (env ?p) (customAgentProvider m)"
    using load_myProvider [OF l] by simp
  from reasoning_model_alone_has_middleware [OF l]
  show ?thesis by (simp add: l mp production_models_def or_default_def)
qed



section \<open>Loading: failure, fallbacks and what the result depends on\<close>

text \<open>
  C5. Loading the module fails exactly when CUSTOM_AGENT_HEADERS is set to a non-empty
  string that the JSON parser rejects: the string goes to \<^verbatim>\<open>JSON.parse\<close> and nothing
  catches what it throws. When the variable is not set or is empty, the module loads
  and the headers given to \<^verbatim>\<open>createOpenAICompatible\<close> are the empty object.
\<close>

theorem load_fails_iff_headers_not_JSON:
  "((\<exists>e. fst (load JSON_parse isTestEnvironment t p) = Inl e) \<longleftrightarrow>
      (\<exists>s. env p ''CUSTOM_AGENT_HEADERS'' = Some s \<and> s \<noteq> [] \<and> JSON_parse s = None))
   \<and> (env p ''CUSTOM_AGENT_HEADERS'' = None \<or> env p ''CUSTOM_AGENT_HEADERS'' = Some [] \<longrightarrow>
        (\<exists>m. fst (load JSON_parse isTestEnvironment t p) = Inr m
           \<and> headers (settings (customAgentProvider m)) = JObject []))"
proof (cases rule: headers_cases [where e = "env p" and jp = JSON_parse])
  case falsy
  then show ?thesis by (auto simp add: load_falsy settings_from_def)
next
  case (invalid s)
  then show ?thesis by (simp add: load_invalid)
next
  case (valid s j)
  then show ?thesis by (simp add: load_valid)
qed

text \<open>
  The theorem at work: headers that are not JSON fail the load, also in the test
  environment; with the variable set to the empty string the module loads with the
  empty object for headers.
\<close>

theorem load_fails_iff_headers_not_JSON_witness:
  "fst (load sample_JSON_parse True sample_models
          \<lparr>env = [''CUSTOM_AGENT_HEADERS'' \<mapsto> ''not json''], reads = []\<rparr>) = Inl SyntaxError
   \<and> (case fst (load sample_JSON_parse True sample_models
                  \<lparr>env = [''CUSTOM_AGENT_HEADERS'' \<mapsto> ''''], reads = []\<rparr>) of
        Inl e \<Rightarrow> False
      | Inr m \<Rightarrow> headers (settings (customAgentProvider m)) = JObject [])"
proof -
  let ?bad = "\<lparr>env = [''CUSTOM_AGENT_HEADERS'' \<mapsto> ''not json''], reads = []\<rparr>"
  let ?none = "\<lparr>env = [''CUSTOM_AGENT_HEADERS'' \<mapsto> ''''], reads = []\<rparr>"
  have "\<exists>s. env ?bad ''CUSTOM_AGENT_HEADERS'' = Some s \<and> s \<noteq> [] \<and> sample_JSON_parse s = None"
    by simp
  with load_fails_iff_headers_not_JSON [of sample_JSON_parse True sample_models ?bad]
  obtain e where "fst (load sample_JSON_parse True sample_models ?bad) = Inl e"
    by blast
  then have bad: "fst (load sample_JSON_parse True sample_models ?bad) = Inl SyntaxError"
    by (cases e) simp
  have "env ?none ''CUSTOM_AGENT_HEADERS'' = None \<or> env ?none ''CUSTOM_AGENT_HEADERS'' = Some []"
    by simp
  with load_fails_iff_headers_not_JSON [of sample_JSON_parse True sample_models ?none]
  obtain m where "fst (load sample_JSON_parse True sample_models ?none) = Inr m"
    and "headers (settings (customAgentProvider m)) = JObject []"
    by blast
  with bad show ?thesis by simp
qed

text \<open>
  C6, as the specification states it, fails: two environments with the same
  \<^verbatim>\<open>process.env\<close>, so that they agree on the eight variables, one a test environment
  and one not, load different providers. The selection is \<open>isTestEnvironment\<close>, which
  the module imports and does not compute from the eight variables.
\<close>

theorem load_differs_with_isTestEnvironment_counterexample:
  "fst (load sample_JSON_parse True sample_models \<lparr>env = Map.empty, reads = []\<rparr>)
     \<noteq> fst (load sample_JSON_parse False sample_models \<lparr>env = Map.empty, reads = []\<rparr>)"
  by (simp add: load_falsy test_models_def production_models_def)

text \<open>
  C6, amended. What loading the module produces (the failure, or the two constants)
  depends only on \<open>isTestEnvironment\<close>, on the imports and on the eight variables:
  two environments with the same \<open>isTestEnvironment\<close> that agree on the eight
  variables produce the same.
\<close>

theorem load_depends_only_on_selection_and_variables:
  assumes "\<forall>k \<in> set CUSTOM_AGENT_variables. env p1 k = env p2 k"
  shows "fst (load JSON_parse isTestEnvironment t p1) = fst (load JSON_parse isTestEnvironment t p2)"
  using assms by (rule load_fst_agree)

theorem load_depends_only_on_selection_and_variables_witness:
  "list_all
     (\<lambda>k. env \<lparr>env = [''CUSTOM_AGENT_HEADERS'' \<mapsto> ''{}'', ''PLAYWRIGHT'' \<mapsto> ''1''], reads = []\<rparr> k
            = env \<lparr>env = [''CUSTOM_AGENT_HEADERS'' \<mapsto> ''{}''], reads = [''HOME'']\<rparr> k)
     CUSTOM_AGENT_variables
   \<and> fst (load sample_JSON_parse False sample_models
            \<lparr>env = [''CUSTOM_AGENT_HEADERS'' \<mapsto> ''{}'', ''PLAYWRIGHT'' \<mapsto> ''1''], reads = []\<rparr>)
       = fst (load sample_JSON_parse False sample_models
            \<lparr>env = [''CUSTOM_AGENT_HEADERS'' \<mapsto> ''{}''], reads = [''HOME'']\<rparr>)"
proof -
  let ?p1 = "\<lparr>env = [''CUSTOM_AGENT_HEADERS'' \<mapsto> ''{}'', ''PLAYWRIGHT'' \<mapsto> ''1''], reads = []\<rparr>"
  let ?p2 = "\<lparr>env = [''CUSTOM_AGENT_HEADERS'' \<mapsto> ''{}''], reads = [''HOME'']\<rparr>"
  have h: "\<forall>k \<in> set CUSTOM_AGENT_variables. env ?p1 k = env ?p2 k"
    by (simp add: CUSTOM_AGENT_variables_def)
  from h load_depends_only_on_selection_and_variables [OF h]
  show ?thesis by (simp add: list_all_iff)
qed



text \<open>
  C8. The module loads when none of the eight variables is set, with the fallbacks
  custom-agent for the name, dummy-key for the API key, http://localhost:8000/v1 for
  the base URL and the empty object for the headers: no variable is needed for loading.
\<close>

theorem load_without_variables:
  assumes "\<forall>k \<in> set CUSTOM_AGENT_variables. env p k = None"
  shows "\<exists>m. fst (load JSON_parse isTestEnvironment t p) = Inr m
       \<and> settings (customAgentProvider m) =
           \<lparr> name = ''custom-agent'', apiKey = ''dummy-key'',
             baseURL = ''http://localhost:8000/v1'', headers = JObject [] \<rparr>"
proof -
  from assms
  have h: "env p ''CUSTOM_AGENT_HEADERS'' = None \<or> env p ''CUSTOM_AGENT_HEADERS'' = Some []"
    by (simp add: CUSTOM_AGENT_variables_def)
  from assms show ?thesis
    by (simp add: load_falsy [OF h] settings_from_def or_default_def CUSTOM_AGENT_variables_def)
qed

theorem load_without_variables_witness:
  "list_all (\<lambda>k. env \<lparr>env = [''HOME'' \<mapsto> ''/root''], reads = []\<rparr> k = None)
     CUSTOM_AGENT_variables
   \<and> (case fst (load sample_JSON_parse False sample_models
                  \<lparr>env = [''HOME'' \<mapsto> ''/root''], reads = []\<rparr>) of
        Inl e \<Rightarrow> False
      | Inr m \<Rightarrow>
          settings (customAgentProvider m) =
            \<lparr> name = ''custom-agent'', apiKey = ''dummy-key'',
              baseURL = ''http://localhost:8000/v1'', headers = JObject [] \<rparr>)"
proof -
  let ?p = "\<lparr>env = [''HOME'' \<mapsto> ''/root''], reads = []\<rparr>"
  have h: "\<forall>k \<in> set CUSTOM_AGENT_variables. env ?p k = None"
    by (simp add: CUSTOM_AGENT_variables_def)
  from load_without_variables [OF h, of sample_JSON_parse False sample_models]
  obtain m where "fst (load sample_JSON_parse False sample_models ?p) = Inr m"
    and "settings (customAgentProvider m) =
           \<lparr> name = ''custom-agent'', apiKey = ''dummy-key'',
             baseURL = ''http://localhost:8000/v1'', headers = JObject [] \<rparr>"
    by blast
  with h show ?thesis by (simp add: list_all_iff)
qed


section \<open>The model list against the provider\<close>

text \<open>
  C9. \<open>DEFAULT_CHAT_MODEL\<close> is "chat-model", the id of an element of \<open>chatModels\<close>;
  \<open>chatModels\<close> has two elements, of ids "chat-model" and "chat-model-reasoning";
  and in both branches every id of \<open>chatModels\<close> is a key of the language models of
  \<open>myProvider\<close>.
\<close>

theorem chatModels_ids_are_keys:
  "DEFAULT_CHAT_MODEL = ''chat-model''
   \<and> DEFAULT_CHAT_MODEL \<in> set (map id' chatModels)
   \<and> map id' chatModels = [''chat-model'', ''chat-model-reasoning'']
   \<and> (fst (load JSON_parse isTestEnvironment t p) = Inr m \<longrightarrow>
        set (map id' chatModels) \<subseteq> set (map fst (languageModels (myProvider m))))"
proof (intro conjI impI)
  show "DEFAULT_CHAT_MODEL = ''chat-model''"
    by (simp add: DEFAULT_CHAT_MODEL_def)
  show "DEFAULT_CHAT_MODEL \<in> set (map id' chatModels)"
    by (simp add: DEFAULT_CHAT_MODEL_def chatModels_def)
  show "map id' chatModels = [''chat-model'', ''chat-model-reasoning'']"
    by (simp add: chatModels_def)
next
  assume l: "fst (load JSON_parse isTestEnvironment t p) = Inr m"
  have "map fst (languageModels (myProvider m)) =
          [''chat-model'', ''chat-model-reasoning'', ''title-model'', ''artifact-model'']"
    using load_myProvider [OF l]
    by (cases isTestEnvironment) (simp_all add: test_models_def production_models_def)
  then show "set (map id' chatModels) \<subseteq> set (map fst (languageModels (myProvider m)))"
    by (simp add: chatModels_def)
qed

theorem chatModels_ids_are_keys_witness:
  "(case fst (load sample_JSON_parse True sample_models \<lparr>env = Map.empty, reads = []\<rparr>) of
      Inl e \<Rightarrow> False
    | Inr m \<Rightarrow> set (map id' chatModels) \<subseteq> set (map fst (languageModels (myProvider m))))
   \<and> (case fst (load sample_JSON_parse False sample_models \<lparr>env = Map.empty, reads = []\<rparr>) of
      Inl e \<Rightarrow> False
    | Inr m \<Rightarrow> set (map id' chatModels) \<subseteq> set (map fst (languageModels (myProvider m))))"
proof -
  let ?p = "\<lparr>env = Map.empty, reads = []\<rparr>"
  obtain m1 where l1: "fst (load sample_JSON_parse True sample_models ?p) = Inr m1"
    by (simp add: load_falsy)
  obtain m2 where l2: "fst (load sample_JSON_parse False sample_models ?p) = Inr m2"
    by (simp add: load_falsy)
  from chatModels_ids_are_keys [of sample_JSON_parse True sample_models ?p m1] l1
  have k1: "set (map id' chatModels) \<subseteq> set (map fst (languageModels (myProvider m1)))"
    by blast
  from chatModels_ids_are_keys [of sample_JSON_parse False sample_models ?p m2] l2
  have k2: "set (map id' chatModels) \<subseteq> set (map fst (languageModels (myProvider m2)))"
    by blast
  from k1 k2 show ?thesis by (simp add: l1 l2)
qed


section \<open>The test branch ignores the environment\<close>

text \<open>
  C10. In a test environment the language models of \<open>myProvider\<close> do not depend on
  the model variables: any two test environments in which the module loads have the
  same \<open>myProvider\<close>, whose four keys are the four imported test doubles, whatever
  the values of CUSTOM_AGENT_CHAT_MODEL, CUSTOM_AGENT_REASONING_MODEL,
  CUSTOM_AGENT_TITLE_MODEL and CUSTOM_AGENT_ARTIFACT_MODEL.
\<close>

theorem test_myProvider_independent_of_environment:
  assumes "fst (load JSON_parse True t p1) = Inr m1"
    and "fst (load JSON_parse True t p2) = Inr m2"
  shows "myProvider m1 = myProvider m2
       \<and> map_of (languageModels (myProvider m1)) ''chat-model'' = Some (Imported (chatModel t))
       \<and> map_of (languageModels (myProvider m1)) ''chat-model-reasoning''
           = Some (Imported (reasoningModel t))
       \<and> map_of (languageModels (myProvider m1)) ''title-model'' = Some (Imported (titleModel t))
       \<and> map_of (languageModels (myProvider m1)) ''artifact-model''
           = Some (Imported (artifactModel t))"
  using load_myProvider [OF assms(1)] load_myProvider [OF assms(2)]
  by (simp add: test_models_def)

theorem test_myProvider_independent_of_environment_witness:
  "case (fst (load sample_JSON_parse True sample_models
                \<lparr>env = [''CUSTOM_AGENT_CHAT_MODEL'' \<mapsto> ''llama-3''], reads = []\<rparr>),
         fst (load sample_JSON_parse True sample_models
                \<lparr>env = [''CUSTOM_AGENT_CHAT_MODEL'' \<mapsto> ''mistral'',
                         ''CUSTOM_AGENT_ARTIFACT_MODEL'' \<mapsto> ''gpt-4.1''], reads = []\<rparr>)) of
     (Inr m1, Inr m2) \<Rightarrow>
       myProvider m1 = myProvider m2
       \<and> map_of (languageModels (myProvider m1)) ''chat-model'' = Some (Imported ''mock-chat'')
       \<and> map_of (languageModels (myProvider m1)) ''artifact-model''
           = Some (Imported ''mock-artifact'')
   | _ \<Rightarrow> False"
proof -
  let ?p1 = "\<lparr>env = [''CUSTOM_AGENT_CHAT_MODEL'' \<mapsto> ''llama-3''], reads = []\<rparr>"
  let ?p2 = "\<lparr>env = [''CUSTOM_AGENT_CHAT_MODEL'' \<mapsto> ''mistral'',
                      ''CUSTOM_AGENT_ARTIFACT_MODEL'' \<mapsto> ''gpt-4.1''], reads = []\<rparr>"
  obtain m1 where l1: "fst (load sample_JSON_parse True sample_models ?p1) = Inr m1"
    by (simp add: load_falsy)
  obtain m2 where l2: "fst (load sample_JSON_parse True sample_models ?p2) = Inr m2"
    by (simp add: load_falsy)
  from test_myProvider_independent_of_environment [OF l1 l2]
  show ?thesis by (auto simp add: l1 l2)
qed

end
